theory Spec2Isabelle
  imports Complex_Main "HOL-Library.Word"
begin

section \<open>Strip composer: placement geometry\<close>

text \<open>
  The layout code of \<^verbatim>\<open>src/utils/photoboothGenerator.js\<close>. JavaScript numbers are
  read as exact reals: the rounding of IEEE-754 doubles is not part of this model, and a
  photo count is a natural number (it is the \<^verbatim>\<open>length\<close> of an array). The fields
  \<^verbatim>\<open>x, y, w, h\<close> of a placement object are named \<open>p_x, p_y, p_w, p_h\<close>; a placement
  without the \<^verbatim>\<open>isPolaroid\<close> property has it false, as JavaScript reads
  \<^verbatim>\<open>undefined\<close> in a condition.
\<close>

record placement =
  p_x :: real
  p_y :: real
  p_w :: real
  p_h :: real
  rotation :: real
  borderWidth :: real
  borderRadius :: real
  isPolaroid :: bool

definition getClassicPlacements :: "real \<Rightarrow> real \<Rightarrow> real \<Rightarrow> real \<Rightarrow> nat \<Rightarrow> placement list" where
  "getClassicPlacements padding headerHeight width height count =
     (let spacing = 20;
          photoHeight = (height - (spacing * (real count - 1))) / real count
      in map (\<lambda>i. \<lparr>p_x = padding,
                    p_y = headerHeight + (real i * (photoHeight + spacing)),
                    p_w = width,
                    p_h = photoHeight,
                    rotation = 0,
                    borderWidth = 3,
                    borderRadius = 12,
                    isPolaroid = False\<rparr>) [0..<count])"

definition positions :: "(nat \<times> nat) list" where
  "positions = [(0, 0), (1, 0), (0, 1), (1, 1)]"

definition getGridPlacements :: "real \<Rightarrow> real \<Rightarrow> real \<Rightarrow> real \<Rightarrow> nat \<Rightarrow> placement list" where
  "getGridPlacements padding headerHeight width height count =
     (let gap = 20;
          photoWidth = (width - gap) / 2;
          photoHeight = (height - gap) / 2
      in map (\<lambda>(col, row). \<lparr>p_x = padding + (real col * (photoWidth + gap)),
                             p_y = headerHeight + (real row * (photoHeight + gap)),
                             p_w = photoWidth,
                             p_h = photoHeight,
                             rotation = 0,
                             borderWidth = 4,
                             borderRadius = 8,
                             isPolaroid = False\<rparr>) (take count positions))"

text \<open>\<^verbatim>\<open>Math.PI\<close> is a double: the rational number nearest to \<open>\<pi>\<close> with a 53-bit mantissa.\<close>

definition Math_PI :: real where
  "Math_PI = 884279719003555 / 281474976710656"

definition rotations :: "real list" where
  "rotations = [-8, 5, -3, 7]"

definition offsets :: "(real \<times> real) list" where
  "offsets = [(-30, -50), (40, -20), (-20, 60), (30, 100)]"

definition getPolaroidPlacements :: "real \<Rightarrow> real \<Rightarrow> real \<Rightarrow> real \<Rightarrow> nat \<Rightarrow> placement list" where
  "getPolaroidPlacements padding headerHeight width height count =
     (let polaroidWidth = width * (7 / 10);
          polaroidHeight = polaroidWidth * (12 / 10);
          centerX = padding + width / 2;
          centerY = headerHeight + height / 2
      in map (\<lambda>i. \<lparr>p_x = centerX - polaroidWidth / 2 + fst (offsets ! i),
                    p_y = centerY - polaroidHeight / 2 + snd (offsets ! i) - 100,
                    p_w = polaroidWidth,
                    p_h = polaroidHeight,
                    rotation = (rotations ! i) * Math_PI / 180,
                    borderWidth = 0,
                    borderRadius = 4,
                    isPolaroid = True\<rparr>) [0..<min count 4])"

definition getTemplatePlacements :: "string \<Rightarrow> real \<Rightarrow> real \<Rightarrow> nat \<Rightarrow> placement list" where
  "getTemplatePlacements template width height photoCount =
     (let HEADER_HEIGHT = 200;
          FOOTER_HEIGHT = 150;
          PADDING = 40;
          availableHeight = height - HEADER_HEIGHT - FOOTER_HEIGHT;
          availableWidth = width - (PADDING * 2)
      in if template = ''grid'' then
           getGridPlacements PADDING HEADER_HEIGHT availableWidth availableHeight photoCount
         else if template = ''polaroid'' then
           getPolaroidPlacements PADDING HEADER_HEIGHT availableWidth availableHeight photoCount
         else
           getClassicPlacements PADDING HEADER_HEIGHT availableWidth availableHeight photoCount)"

text \<open>
  The part of the strip that a placement covers. The canvas draws a rectangle of negative
  width or height towards the left or upwards from its anchor, so the covered interval
  lies between the anchor and the anchor plus the signed size, whichever is smaller first.
\<close>

definition top_edge :: "placement \<Rightarrow> real" where
  "top_edge p = min (p_y p) (p_y p + p_h p)"

definition bottom_edge :: "placement \<Rightarrow> real" where
  "bottom_edge p = max (p_y p) (p_y p + p_h p)"

definition left_edge :: "placement \<Rightarrow> real" where
  "left_edge p = min (p_x p) (p_x p + p_w p)"

definition right_edge :: "placement \<Rightarrow> real" where
  "right_edge p = max (p_x p) (p_x p + p_w p)"

definition overlap_vertically :: "placement \<Rightarrow> placement \<Rightarrow> bool" where
  "overlap_vertically p q \<longleftrightarrow> max (top_edge p) (top_edge q) < min (bottom_edge p) (bottom_edge q)"

definition overlap_horizontally :: "placement \<Rightarrow> placement \<Rightarrow> bool" where
  "overlap_horizontally p q \<longleftrightarrow> max (left_edge p) (left_edge q) < min (right_edge p) (right_edge q)"

definition overlap :: "placement \<Rightarrow> placement \<Rightarrow> bool" where
  "overlap p q \<longleftrightarrow> overlap_horizontally p q \<and> overlap_vertically p q"


section \<open>Strip composer: cropping and drawing a photo\<close>

text \<open>
  An image that has been decoded offers its natural width and height. The call of
  \<^verbatim>\<open>ctx.drawImage(img, sourceX, sourceY, sourceWidth, sourceHeight, x, y, width, height)\<close>
  that ends \<^verbatim>\<open>drawCroppedImage\<close> is recorded with its eight numbers.
\<close>

record html_image =
  img_width :: real
  img_height :: real

record drawImage_call =
  src_x :: real
  src_y :: real
  src_width :: real
  src_height :: real
  dst_x :: real
  dst_y :: real
  dst_width :: real
  dst_height :: real

definition drawCroppedImage :: "html_image \<Rightarrow> real \<Rightarrow> real \<Rightarrow> real \<Rightarrow> real \<Rightarrow> drawImage_call" where
  "drawCroppedImage img x y width height =
     (let imgAspect = img_width img / img_height img;
          targetAspect = width / height
      in if imgAspect > targetAspect then
           (let sourceWidth = img_height img * targetAspect;
                sourceX = (img_width img - sourceWidth) / 2
            in \<lparr>src_x = sourceX, src_y = 0, src_width = sourceWidth, src_height = img_height img,
                dst_x = x, dst_y = y, dst_width = width, dst_height = height\<rparr>)
         else
           (let sourceHeight = img_width img / targetAspect;
                sourceY = (img_height img - sourceHeight) / 2
            in \<lparr>src_x = 0, src_y = sourceY, src_width = img_width img, src_height = sourceHeight,
                dst_x = x, dst_y = y, dst_width = width, dst_height = height\<rparr>))"

text \<open>
  What the composer paints, in the order of the calls. A photo is painted with the frame
  of its placement (the frame, shadow, border, tape and rotation are fixed by the placement)
  and with the crop that \<^verbatim>\<open>drawCroppedImage\<close> computes for the inner photo area.
  \<^verbatim>\<open>drawHeader\<close> and \<^verbatim>\<open>drawPhotoAtPlacement\<close> receive the template and never read it.
\<close>

datatype draw_op =
    FillBackground
  | DrawHeader
  | DrawPhoto placement drawImage_call
  | DrawFooter
  | DrawConfetti
  | ApplyVignette

definition drawPhotoAtPlacement :: "html_image \<Rightarrow> placement \<Rightarrow> draw_op" where
  "drawPhotoAtPlacement img pl =
     (if isPolaroid pl then
        (let photoPadding = 20;
             bottomPadding = 80;
             photoX = p_x pl + photoPadding;
             photoY = p_y pl + photoPadding;
             photoWidth = p_w pl - (photoPadding * 2);
             photoHeight = p_h pl - photoPadding - bottomPadding
         in DrawPhoto pl (drawCroppedImage img photoX photoY photoWidth photoHeight))
      else
        (let photoPadding = 10;
             photoX = p_x pl + photoPadding;
             photoY = p_y pl + photoPadding;
             photoWidth = p_w pl - (photoPadding * 2);
             photoHeight = p_h pl - (photoPadding * 2)
         in DrawPhoto pl (drawCroppedImage img photoX photoY photoWidth photoHeight)))"

section \<open>Strip composer: generatePhotoboothStrip\<close>

text \<open>
  The promise that \<^verbatim>\<open>generatePhotoboothStrip\<close> returns either rejects with an error or
  resolves with a data URL. The browser is a parameter: whether the canvas gives a 2D
  context, what happens to each \<^verbatim>\<open>Image\<close> once its source is set (it loads, it fires
  \<^verbatim>\<open>onerror\<close>, the assignment throws, or nothing happens within the 30 seconds of the
  timeout), and what \<^verbatim>\<open>canvas.toDataURL\<close> returns for the painted canvas (\<open>None\<close>
  when it throws). The photo array may be null or undefined (\<open>None\<close>); an entry that
  is null, undefined or empty is the empty string. The \<^verbatim>\<open>onload\<close> callbacks run in the
  order in which the images finish; the model lists the photos in index order.
\<close>

datatype error =
    NoPhotosProvided
  | CanvasContextNotAvailable
  | PhotoProcessingTimeout
  | FailedToGenerateImage

fun message :: "error \<Rightarrow> string" where
  "message NoPhotosProvided = ''No photos provided''"
| "message CanvasContextNotAvailable = ''Canvas context not available''"
| "message PhotoProcessingTimeout = ''Photo processing timeout''"
| "message FailedToGenerateImage = ''Failed to generate photobooth strip image''"

datatype load_result = Loaded html_image | LoadError | SrcThrows | NeverSettles

record browser =
  ctxAvailable :: bool
  loadImage :: "nat \<Rightarrow> string \<Rightarrow> load_result"
  toDataURL :: "draw_op list \<Rightarrow> string option"

record options =
  opt_template :: "string option"
  opt_showConfetti :: bool
  opt_showVignette :: bool

text \<open>
  One promise of \<^verbatim>\<open>photoPromises\<close>: \<open>Some ops\<close> when it resolves, having painted
  \<open>ops\<close>, and \<open>None\<close> while it stays pending. It never rejects.
\<close>

definition photoPromise :: "browser \<Rightarrow> placement list \<Rightarrow> nat \<Rightarrow> string \<Rightarrow> draw_op list option" where
  "photoPromise env placements index dataUrl =
     (if dataUrl = [] \<or> \<not> index < length placements then Some []
      else case loadImage env index dataUrl of
             Loaded img \<Rightarrow> Some [drawPhotoAtPlacement img (placements ! index)]
           | LoadError \<Rightarrow> Some []
           | SrcThrows \<Rightarrow> Some []
           | NeverSettles \<Rightarrow> None)"

fun promise_all :: "'a list option list \<Rightarrow> 'a list option" where
  "promise_all [] = Some []"
| "promise_all (None # ps) = None"
| "promise_all (Some v # ps) = (case promise_all ps of None \<Rightarrow> None | Some vs \<Rightarrow> Some (v @ vs))"

text \<open>
  The template of the options, \<^verbatim>\<open>'classic'\<close> when the property is absent, and the
  placements on the canvas of 1080 by 1920 pixels. Then the canvas once
  \<^verbatim>\<open>Promise.all(photoPromises)\<close> has won the race against the timeout and the footer
  and the optional effects are painted; \<open>None\<close> when the timeout wins.
\<close>

definition chosen_template :: "options \<Rightarrow> string" where
  "chosen_template opts = (case opt_template opts of None \<Rightarrow> ''classic'' | Some t \<Rightarrow> t)"

definition strip_placements :: "options \<Rightarrow> nat \<Rightarrow> placement list" where
  "strip_placements opts photoCount =
     (let STRIP_WIDTH = 1080;
          STRIP_HEIGHT = 1920
      in getTemplatePlacements (chosen_template opts) STRIP_WIDTH STRIP_HEIGHT photoCount)"

definition stripCanvas :: "browser \<Rightarrow> string list \<Rightarrow> options \<Rightarrow> draw_op list option" where
  "stripCanvas env photoDataUrls opts =
     (let placements = strip_placements opts (length photoDataUrls);
          photoPromises = map (\<lambda>(index, dataUrl). photoPromise env placements index dataUrl)
                              (enumerate 0 photoDataUrls)
      in case promise_all photoPromises of
           None \<Rightarrow> None
         | Some photos \<Rightarrow>
             Some ([FillBackground, DrawHeader] @ photos @ [DrawFooter]
                   @ (if opt_showConfetti opts then [DrawConfetti] else [])
                   @ (if opt_showVignette opts then [ApplyVignette] else [])))"

definition generatePhotoboothStrip :: "browser \<Rightarrow> string list option \<Rightarrow> options \<Rightarrow> error + string" where
  "generatePhotoboothStrip env photoDataUrls opts =
     (case photoDataUrls of
        None \<Rightarrow> Inl NoPhotosProvided
      | Some urls \<Rightarrow>
          if length urls = 0 then Inl NoPhotosProvided
          else if \<not> ctxAvailable env then Inl CanvasContextNotAvailable
          else case stripCanvas env urls opts of
                 None \<Rightarrow> Inl PhotoProcessingTimeout
               | Some canvas \<Rightarrow>
                   (case toDataURL env canvas of
                      None \<Rightarrow> Inl FailedToGenerateImage
                    | Some dataUrl \<Rightarrow>
                        if dataUrl = [] \<or> dataUrl = ''data:,'' then Inl FailedToGenerateImage
                        else Inr dataUrl))"

section \<open>Result screen: download and share\<close>

text \<open>
  \<^verbatim>\<open>handleDownload\<close> clicks an anchor whose \<^verbatim>\<open>download\<close> attribute is built from
  \<^verbatim>\<open>new Date().getTime()\<close>, the clock in whole milliseconds, which is a parameter here.
  A template literal prints such an integer in decimal, with a minus sign when negative
  (the time values of a date stay far below \<open>10\<^sup>2\<^sup>1\<close>, where JavaScript would change
  to the exponent notation). The \<^verbatim>\<open>isDownloading\<close> flag only disables the button; the
  function does not read it.
\<close>

definition digit :: "nat \<Rightarrow> char" where
  "digit d = ''0123456789'' ! d"

function digits :: "nat \<Rightarrow> string" where
  "digits n = (if n < 10 then [digit n] else digits (n div 10) @ [digit (n mod 10)])"
  by pat_completeness auto
termination
  by (relation "measure (\<lambda>n. n)") auto

declare digits.simps [simp del]

definition toString :: "int \<Rightarrow> string" where
  "toString n = (if n < 0 then CHR ''-'' # digits (nat (- n)) else digits (nat n))"

record anchor =
  link_download :: string
  link_href :: string

definition handleDownload :: "string \<Rightarrow> int \<Rightarrow> anchor option" where
  "handleDownload stripDataUrl now =
     (if stripDataUrl = [] then None
      else Some \<lparr>link_download = ''new-year-photobooth-'' @ toString now @ ''.png'',
                 link_href = stripDataUrl\<rparr>)"

text \<open>The file names that successive invocations save under, one clock reading each.\<close>

definition saved_filenames :: "string \<Rightarrow> int list \<Rightarrow> string list" where
  "saved_filenames stripDataUrl clock =
     concat (map (\<lambda>now. case handleDownload stripDataUrl now of
                           None \<Rightarrow> [] | Some a \<Rightarrow> [link_download a]) clock)"

text \<open>
  \<^verbatim>\<open>handleShare\<close> offers up to three payloads to \<^verbatim>\<open>navigator.share\<close>: the strip as a
  file, then title, text and URL, then text and URL alone. The platform is a parameter:
  the component's \<^verbatim>\<open>shareSupported\<close> state, whether \<^verbatim>\<open>navigator\<close> and
  \<^verbatim>\<open>navigator.share\<close> exist, whether fetching the data URL and building the file
  succeeds, whether \<^verbatim>\<open>navigator.canShare\<close> is a function and what it answers
  (\<open>None\<close> when it throws), and whether a call of \<^verbatim>\<open>navigator.share\<close> resolves or fails
  with an error of a given name. The result is the list of effects, in order.
\<close>

datatype payload = FilePayload | TextUrlPayload | LastResortPayload

datatype share_outcome = ShareResolved | ShareRejected string

record platform =
  shareSupported :: bool
  navigatorDefined :: bool
  hasShare :: bool
  fileReady :: bool
  hasCanShare :: bool
  canShare :: "payload \<Rightarrow> bool option"
  share :: "payload \<Rightarrow> share_outcome"
  clock_ms :: int

datatype effect =
    ShareCalled payload
  | ConsoleLog string
  | ConsoleError string
  | Download anchor

definition download_effect :: "string \<Rightarrow> int \<Rightarrow> effect list" where
  "download_effect stripDataUrl now =
     (case handleDownload stripDataUrl now of None \<Rightarrow> [] | Some a \<Rightarrow> [Download a])"

definition share_catch :: "platform \<Rightarrow> string \<Rightarrow> string \<Rightarrow> effect list" where
  "share_catch pf stripDataUrl name =
     (if name \<noteq> ''AbortError'' then [ConsoleError ''Error sharing:''] else [])
     @ download_effect stripDataUrl (clock_ms pf)"

definition share_last_resort :: "platform \<Rightarrow> string \<Rightarrow> effect list" where
  "share_last_resort pf stripDataUrl =
     ShareCalled LastResortPayload #
     (case share pf LastResortPayload of
        ShareResolved \<Rightarrow> []
      | ShareRejected name \<Rightarrow> share_catch pf stripDataUrl name)"

definition share_text :: "platform \<Rightarrow> string \<Rightarrow> effect list" where
  "share_text pf stripDataUrl =
     (if hasCanShare pf then
        (case canShare pf TextUrlPayload of
           None \<Rightarrow> share_last_resort pf stripDataUrl
         | Some False \<Rightarrow> share_last_resort pf stripDataUrl
         | Some True \<Rightarrow>
             ShareCalled TextUrlPayload #
             (case share pf TextUrlPayload of
                ShareResolved \<Rightarrow> []
              | ShareRejected name \<Rightarrow> share_last_resort pf stripDataUrl))
      else share_last_resort pf stripDataUrl)"

definition share_file :: "platform \<Rightarrow> string \<Rightarrow> effect list" where
  "share_file pf stripDataUrl =
     (if \<not> fileReady pf then
        ConsoleLog ''File sharing not supported, trying text share'' # share_text pf stripDataUrl
      else if hasCanShare pf then
        (case canShare pf FilePayload of
           None \<Rightarrow>
             ConsoleLog ''canShare check failed, trying without files'' # share_text pf stripDataUrl
         | Some False \<Rightarrow> share_text pf stripDataUrl
         | Some True \<Rightarrow>
             ShareCalled FilePayload #
             (case share pf FilePayload of
                ShareResolved \<Rightarrow> []
              | ShareRejected name \<Rightarrow>
                  ConsoleLog ''canShare check failed, trying without files''
                  # share_text pf stripDataUrl))
      else share_text pf stripDataUrl)"

definition handleShare :: "platform \<Rightarrow> string \<Rightarrow> effect list" where
  "handleShare pf stripDataUrl =
     (if stripDataUrl = [] then []
      else if \<not> shareSupported pf \<or> \<not> navigatorDefined pf \<or> \<not> hasShare pf then
        download_effect stripDataUrl (clock_ms pf)
      else share_file pf stripDataUrl)"

fun is_download :: "effect \<Rightarrow> bool" where
  "is_download (Download a) = True"
| "is_download e = False"

fun is_console_error :: "effect \<Rightarrow> bool" where
  "is_console_error (ConsoleError s) = True"
| "is_console_error e = False"

definition downloads :: "effect list \<Rightarrow> bool" where
  "downloads es = (filter is_download es \<noteq> [])"

definition logs_error :: "effect list \<Rightarrow> bool" where
  "logs_error es = (filter is_console_error es \<noteq> [])"

text \<open>
  What the three attempts of \<^verbatim>\<open>handleShare\<close> can achieve on a platform: the platform
  offers sharing at all, the file attempt completes a share, the text and URL attempt
  completes a share.
\<close>

definition share_available :: "platform \<Rightarrow> bool" where
  "share_available pf = (shareSupported pf \<and> navigatorDefined pf \<and> hasShare pf)"

definition file_shared :: "platform \<Rightarrow> bool" where
  "file_shared pf =
     (fileReady pf \<and> hasCanShare pf \<and> canShare pf FilePayload = Some True
      \<and> share pf FilePayload = ShareResolved)"

definition text_shared :: "platform \<Rightarrow> bool" where
  "text_shared pf =
     (hasCanShare pf \<and> canShare pf TextUrlPayload = Some True
      \<and> share pf TextUrlPayload = ShareResolved)"

text \<open>
  Two platforms on which the user dismisses every share sheet, so that each call of
  \<^verbatim>\<open>navigator.share\<close> fails with an \<open>AbortError\<close>: one without
  \<^verbatim>\<open>navigator.canShare\<close>, one where it accepts every payload. And a platform on which
  the last call fails with another error. The platform on which building the file fails
  and every share succeeds comes with the other examples below.
\<close>

fun every_share_cancelled :: "payload \<Rightarrow> share_outcome" where
  "every_share_cancelled p = ShareRejected ''AbortError''"

fun every_share_resolves :: "payload \<Rightarrow> share_outcome" where
  "every_share_resolves p = ShareResolved"

fun every_share_denied :: "payload \<Rightarrow> share_outcome" where
  "every_share_denied p = ShareRejected ''NotAllowedError''"

fun can_share_everything :: "payload \<Rightarrow> bool option" where
  "can_share_everything p = Some True"

definition cancelling_platform :: platform where
  "cancelling_platform =
     \<lparr>shareSupported = True, navigatorDefined = True, hasShare = True, fileReady = True,
      hasCanShare = False, canShare = can_share_everything, share = every_share_cancelled,
      clock_ms = 1767225600000\<rparr>"

definition cancelling_platform_with_canShare :: platform where
  "cancelling_platform_with_canShare = cancelling_platform\<lparr>hasCanShare := True\<rparr>"

definition denying_platform :: platform where
  "denying_platform = cancelling_platform\<lparr>share := every_share_denied\<rparr>"

definition example_strip :: string where
  "example_strip = ''data:image/png;base64,strip''"

section \<open>Capture: pixel filters\<close>









definition file_failing_platform :: platform where
  "file_failing_platform =
     \<lparr>shareSupported = True, navigatorDefined = True, hasShare = True, fileReady = False,
      hasCanShare = True, canShare = can_share_everything, share = every_share_resolves,
      clock_ms = 1767225600000\<rparr>"


section \<open>Example inputs\<close>

text \<open>
  A browser in which the canvas has a context, every data URL decodes to a picture of 640
  by 480 pixels except the one that is broken, and the encoder returns a PNG data URL;
  three captured photos whose second one is broken; the options left at their defaults.
\<close>

definition example_image :: html_image where
  "example_image = \<lparr>img_width = 640, img_height = 480\<rparr>"

definition example_browser :: browser where
  "example_browser =
     \<lparr>ctxAvailable = True,
      loadImage = (\<lambda>index dataUrl. if dataUrl = ''data:broken'' then LoadError
                                     else Loaded example_image),
      toDataURL = (\<lambda>canvas. Some ''data:image/png;base64,strip'')\<rparr>"

definition example_photos :: "string list" where
  "example_photos = [''data:image/jpeg;base64,one'', ''data:broken'', ''data:image/jpeg;base64,three'']"

definition example_options :: options where
  "example_options = \<lparr>opt_template = None, opt_showConfetti = False, opt_showVignette = False\<rparr>"

section \<open>Placement counts\<close>

lemma length_getClassicPlacements:
  "length (getClassicPlacements padding headerHeight width height count) = count"
  by (simp add: getClassicPlacements_def Let_def)

lemma length_getGridPlacements:
  "length (getGridPlacements padding headerHeight width height count) = min count 4"
  by (simp add: getGridPlacements_def positions_def Let_def min.commute)

lemma length_getPolaroidPlacements:
  "length (getPolaroidPlacements padding headerHeight width height count) = min count 4"
  by (simp add: getPolaroidPlacements_def Let_def)

text \<open>
  C7. For each of the three templates the number of placements is fixed by the photo
  count \<open>N\<close>: the classic template returns exactly \<open>N\<close> placements, the grid and the
  polaroid template return \<open>min N 4\<close>, so never more than \<open>N\<close> and never more than four.
\<close>

theorem placement_count:
  "length (getTemplatePlacements ''classic'' W H N) = N
   \<and> length (getTemplatePlacements ''grid'' W H N) = min N 4
   \<and> length (getTemplatePlacements ''polaroid'' W H N) = min N 4"
  by (simp add: getTemplatePlacements_def Let_def length_getClassicPlacements
        length_getGridPlacements length_getPolaroidPlacements)

theorem placement_count_witness:
  "length (getTemplatePlacements ''classic'' 1080 1920 3) = 3
   \<and> length (getTemplatePlacements ''grid'' 1080 1920 6) = min 6 4
   \<and> length (getTemplatePlacements ''polaroid'' 1080 1920 2) = min 2 4"
  using placement_count[of 1080 1920 3] placement_count[of 1080 1920 6]
    placement_count[of 1080 1920 2]
  by simp

section \<open>Classic layout\<close>

lemma getTemplatePlacements_default:
  "template \<noteq> ''grid'' \<Longrightarrow> template \<noteq> ''polaroid'' \<Longrightarrow>
   getTemplatePlacements template W H N = getClassicPlacements 40 200 (W - 80) (H - 350) N"
  by (simp add: getTemplatePlacements_def Let_def algebra_simps)












section \<open>Grid layout\<close>

lemma grid_take:
  "getTemplatePlacements ''grid'' W H n = take n (getTemplatePlacements ''grid'' W H 4)"
proof -
  have "take 4 positions = positions" by (simp add: positions_def)
  then show ?thesis
    by (simp add: getTemplatePlacements_def getGridPlacements_def Let_def take_map)
qed

lemma grid_four:
  "getTemplatePlacements ''grid'' W H 4 =
     [\<lparr>p_x = 40, p_y = 200, p_w = (W - 100) / 2, p_h = (H - 370) / 2,
        rotation = 0, borderWidth = 4, borderRadius = 8, isPolaroid = False\<rparr>,
      \<lparr>p_x = 40 + ((W - 100) / 2 + 20), p_y = 200, p_w = (W - 100) / 2, p_h = (H - 370) / 2,
        rotation = 0, borderWidth = 4, borderRadius = 8, isPolaroid = False\<rparr>,
      \<lparr>p_x = 40, p_y = 200 + ((H - 370) / 2 + 20), p_w = (W - 100) / 2, p_h = (H - 370) / 2,
        rotation = 0, borderWidth = 4, borderRadius = 8, isPolaroid = False\<rparr>,
      \<lparr>p_x = 40 + ((W - 100) / 2 + 20), p_y = 200 + ((H - 370) / 2 + 20),
        p_w = (W - 100) / 2, p_h = (H - 370) / 2,
        rotation = 0, borderWidth = 4, borderRadius = 8, isPolaroid = False\<rparr>]"
  by (simp add: getTemplatePlacements_def getGridPlacements_def Let_def positions_def)

lemma less_four: "(k::nat) < 4 \<longleftrightarrow> k = 0 \<or> k = 1 \<or> k = 2 \<or> k = 3"
  by auto

lemma beside_no_overlap:
  assumes "p_x p + p_w p \<le> p_x q" "0 \<le> p_w p" "0 \<le> p_w q"
  shows "\<not> overlap p q \<and> \<not> overlap q p"
  using assms by (simp add: overlap_def overlap_horizontally_def left_edge_def right_edge_def)

lemma below_no_overlap:
  assumes "p_y p + p_h p \<le> p_y q" "0 \<le> p_h p" "0 \<le> p_h q"
  shows "\<not> overlap p q \<and> \<not> overlap q p"
  using assms by (simp add: overlap_def overlap_vertically_def top_edge_def bottom_edge_def)

lemma grid_disjoint:
  assumes "100 < W" "370 < H" "i < 4" "j < 4" "i \<noteq> j"
  shows "\<not> overlap (getTemplatePlacements ''grid'' W H 4 ! i)
                    (getTemplatePlacements ''grid'' W H 4 ! j)"
proof -
  let ?ps = "getTemplatePlacements ''grid'' W H 4"
  have p01: "\<not> overlap (?ps ! 0) (?ps ! 1) \<and> \<not> overlap (?ps ! 1) (?ps ! 0)"
    by (rule beside_no_overlap) (use assms(1) in \<open>simp_all add: grid_four\<close>)
  have p02: "\<not> overlap (?ps ! 0) (?ps ! 2) \<and> \<not> overlap (?ps ! 2) (?ps ! 0)"
    by (rule below_no_overlap) (use assms(2) in \<open>simp_all add: grid_four\<close>)
  have p03: "\<not> overlap (?ps ! 0) (?ps ! 3) \<and> \<not> overlap (?ps ! 3) (?ps ! 0)"
    by (rule below_no_overlap) (use assms(2) in \<open>simp_all add: grid_four\<close>)
  have p12: "\<not> overlap (?ps ! 1) (?ps ! 2) \<and> \<not> overlap (?ps ! 2) (?ps ! 1)"
    by (rule below_no_overlap) (use assms(2) in \<open>simp_all add: grid_four\<close>)
  have p13: "\<not> overlap (?ps ! 1) (?ps ! 3) \<and> \<not> overlap (?ps ! 3) (?ps ! 1)"
    by (rule below_no_overlap) (use assms(2) in \<open>simp_all add: grid_four\<close>)
  have p23: "\<not> overlap (?ps ! 2) (?ps ! 3) \<and> \<not> overlap (?ps ! 3) (?ps ! 2)"
    by (rule beside_no_overlap) (use assms(1) in \<open>simp_all add: grid_four\<close>)
  have i: "i = 0 \<or> i = 1 \<or> i = 2 \<or> i = 3" using assms(3) by (simp add: less_four)
  have j: "j = 0 \<or> j = 1 \<or> j = 2 \<or> j = 3" using assms(4) by (simp add: less_four)
  from i j assms(5) p01 p02 p03 p12 p13 p23 show ?thesis by (elim disjE) simp_all
qed

lemma grid_cell:
  assumes "k < 4"
  shows "p_x (getTemplatePlacements ''grid'' W H 4 ! k)
           = 40 + real (fst (positions ! k)) * ((W - 100) / 2 + 20)
       \<and> p_y (getTemplatePlacements ''grid'' W H 4 ! k)
           = 200 + real (snd (positions ! k)) * ((H - 370) / 2 + 20)
       \<and> p_w (getTemplatePlacements ''grid'' W H 4 ! k) = (W - 100) / 2
       \<and> p_h (getTemplatePlacements ''grid'' W H 4 ! k) = (H - 370) / 2"
  using assms by (auto simp add: less_four grid_four positions_def)

lemma grid_cell_pos:
  assumes "k < 4" "100 < W" "370 < H"
  shows "0 < p_w (getTemplatePlacements ''grid'' W H 4 ! k)
       \<and> 0 < p_h (getTemplatePlacements ''grid'' W H 4 ! k)"
  using assms by (auto simp add: less_four grid_four)

text \<open>
  C4. The grid template places index 0, 1, 2, 3 at (column, row) (0,0), (1,0), (0,1), (1,1).
  On a canvas wider than 100 and higher than 370 pixels, four photos give exactly four cells
  of one positive width and one positive height, a gap of 20 apart, no two of which overlap;
  for any count \<open>n\<close> the placements are the first \<open>n\<close> of these four, so fewer than four
  photos give exactly \<open>n\<close> cells and the remaining cells are left out.
\<close>

theorem grid_cells:
  assumes "100 < W" and "370 < H"
  shows "positions = [(0, 0), (1, 0), (0, 1), (1, 1)]
    \<and> length (getTemplatePlacements ''grid'' W H 4) = 4
    \<and> (\<forall>k<4. p_x (getTemplatePlacements ''grid'' W H 4 ! k)
                  = 40 + real (fst (positions ! k)) * ((W - 100) / 2 + 20)
             \<and> p_y (getTemplatePlacements ''grid'' W H 4 ! k)
                  = 200 + real (snd (positions ! k)) * ((H - 370) / 2 + 20)
             \<and> p_w (getTemplatePlacements ''grid'' W H 4 ! k) = (W - 100) / 2
             \<and> p_h (getTemplatePlacements ''grid'' W H 4 ! k) = (H - 370) / 2
             \<and> 0 < p_w (getTemplatePlacements ''grid'' W H 4 ! k)
             \<and> 0 < p_h (getTemplatePlacements ''grid'' W H 4 ! k))
    \<and> (\<forall>i<4. \<forall>j<4. i \<noteq> j \<longrightarrow>
           \<not> overlap (getTemplatePlacements ''grid'' W H 4 ! i)
                     (getTemplatePlacements ''grid'' W H 4 ! j))
    \<and> getTemplatePlacements ''grid'' W H n = take n (getTemplatePlacements ''grid'' W H 4)
    \<and> (n < 4 \<longrightarrow> length (getTemplatePlacements ''grid'' W H n) = n)"
proof -
  have cells: "\<forall>k<4. p_x (getTemplatePlacements ''grid'' W H 4 ! k)
                  = 40 + real (fst (positions ! k)) * ((W - 100) / 2 + 20)
             \<and> p_y (getTemplatePlacements ''grid'' W H 4 ! k)
                  = 200 + real (snd (positions ! k)) * ((H - 370) / 2 + 20)
             \<and> p_w (getTemplatePlacements ''grid'' W H 4 ! k) = (W - 100) / 2
             \<and> p_h (getTemplatePlacements ''grid'' W H 4 ! k) = (H - 370) / 2
             \<and> 0 < p_w (getTemplatePlacements ''grid'' W H 4 ! k)
             \<and> 0 < p_h (getTemplatePlacements ''grid'' W H 4 ! k)"
  proof (intro allI impI)
    fix k :: nat
    assume k: "k < 4"
    from grid_cell[OF k, of W H] grid_cell_pos[OF k assms]
    show "p_x (getTemplatePlacements ''grid'' W H 4 ! k)
                  = 40 + real (fst (positions ! k)) * ((W - 100) / 2 + 20)
             \<and> p_y (getTemplatePlacements ''grid'' W H 4 ! k)
                  = 200 + real (snd (positions ! k)) * ((H - 370) / 2 + 20)
             \<and> p_w (getTemplatePlacements ''grid'' W H 4 ! k) = (W - 100) / 2
             \<and> p_h (getTemplatePlacements ''grid'' W H 4 ! k) = (H - 370) / 2
             \<and> 0 < p_w (getTemplatePlacements ''grid'' W H 4 ! k)
             \<and> 0 < p_h (getTemplatePlacements ''grid'' W H 4 ! k)"
      by blast
  qed
  have disj: "\<forall>i<4. \<forall>j<4. i \<noteq> j \<longrightarrow>
           \<not> overlap (getTemplatePlacements ''grid'' W H 4 ! i)
                     (getTemplatePlacements ''grid'' W H 4 ! j)"
    using grid_disjoint[OF assms] by blast
  have len: "n < 4 \<longrightarrow> length (getTemplatePlacements ''grid'' W H n) = n"
    by (simp add: getTemplatePlacements_def Let_def length_getGridPlacements)
  have four: "length (getTemplatePlacements ''grid'' W H 4) = 4"
    by (simp add: grid_four)
  have pos: "positions = [(0, 0), (1, 0), (0, 1), (1, 1)]"
    by (simp add: positions_def)
  from pos four cells disj grid_take[of W H n] len show ?thesis by blast
qed

theorem grid_cells_witness:
  "(100::real) < 1080 \<and> (370::real) < 1920
   \<and> \<not> overlap (getTemplatePlacements ''grid'' 1080 1920 4 ! 0)
                (getTemplatePlacements ''grid'' 1080 1920 4 ! 1)
   \<and> getTemplatePlacements ''grid'' 1080 1920 3 = take 3 (getTemplatePlacements ''grid'' 1080 1920 4)
   \<and> length (getTemplatePlacements ''grid'' 1080 1920 3) = 3"
  using grid_cells[of 1080 1920 3] by simp

lemma grid_example:
  "map (\<lambda>p. (p_x p, p_y p, p_w p, p_h p)) (getTemplatePlacements ''grid'' 1080 1920 4)
       = [(40, 200, 490, 775), (550, 200, 490, 775), (40, 995, 490, 775), (550, 995, 490, 775)]"
  by (simp add: grid_four)

section \<open>Center crop\<close>











section \<open>Composing the strip\<close>

text \<open>
  C1. Without photos, whether the array is null, undefined or empty, the promise rejects
  with the error whose message is \<open>No photos provided\<close> and so never resolves with an
  image; with at least one entry in the array it never rejects with that error.
\<close>

theorem no_photos_rejected:
  "generatePhotoboothStrip env None opts = Inl NoPhotosProvided
   \<and> generatePhotoboothStrip env (Some []) opts = Inl NoPhotosProvided
   \<and> message NoPhotosProvided = ''No photos provided''
   \<and> generatePhotoboothStrip env (Some (u # us)) opts \<noteq> Inl NoPhotosProvided"
  by (simp add: generatePhotoboothStrip_def split: option.splits)

theorem no_photos_rejected_witness:
  "generatePhotoboothStrip example_browser None example_options = Inl NoPhotosProvided
   \<and> generatePhotoboothStrip example_browser (Some []) example_options = Inl NoPhotosProvided
   \<and> generatePhotoboothStrip example_browser (Some example_photos) example_options
       \<noteq> Inl NoPhotosProvided"
  using no_photos_rejected[of example_browser example_options
      "''data:image/jpeg;base64,one''" "[''data:broken'', ''data:image/jpeg;base64,three'']"]
  by (simp add: example_photos_def)

lemma chosen_template_simps:
  "chosen_template (opts\<lparr>opt_template := None\<rparr>) = ''classic''"
  "chosen_template (opts\<lparr>opt_template := Some t\<rparr>) = t"
  by (simp_all add: chosen_template_def)

lemma getTemplatePlacements_fallback:
  "template \<noteq> ''grid'' \<Longrightarrow> template \<noteq> ''polaroid'' \<Longrightarrow>
   getTemplatePlacements template W H N = getTemplatePlacements ''classic'' W H N"
  by (simp add: getTemplatePlacements_def Let_def)

text \<open>
  C10. A template that is neither \<open>grid\<close> nor \<open>polaroid\<close>, whatever string it is, gets the
  classic layout: the placements are those of \<^verbatim>\<open>getClassicPlacements\<close>, one for each
  photo, so never an empty list for a photo count above zero. An absent template is
  \<open>classic\<close>. The composer then does exactly what it does for \<open>classic\<close>, for every
  browser and every photo list.
\<close>

theorem unknown_template_is_classic:
  assumes "template \<noteq> ''grid''" and "template \<noteq> ''polaroid''"
  shows "getTemplatePlacements template W H N = getClassicPlacements 40 200 (W - 80) (H - 350) N
    \<and> getTemplatePlacements template W H N = getTemplatePlacements ''classic'' W H N
    \<and> length (getTemplatePlacements template W H N) = N
    \<and> (0 < N \<longrightarrow> getTemplatePlacements template W H N \<noteq> [])
    \<and> chosen_template (opts\<lparr>opt_template := None\<rparr>) = ''classic''
    \<and> generatePhotoboothStrip env photos (opts\<lparr>opt_template := Some template\<rparr>)
        = generatePhotoboothStrip env photos (opts\<lparr>opt_template := Some ''classic''\<rparr>)
    \<and> generatePhotoboothStrip env photos (opts\<lparr>opt_template := None\<rparr>)
        = generatePhotoboothStrip env photos (opts\<lparr>opt_template := Some ''classic''\<rparr>)"
proof -
  have a: "getTemplatePlacements template W H N
           = getClassicPlacements 40 200 (W - 80) (H - 350) N"
    using assms by (simp add: getTemplatePlacements_def Let_def algebra_simps)
  have b: "getTemplatePlacements template W H N = getTemplatePlacements ''classic'' W H N"
    using assms by (rule getTemplatePlacements_fallback)
  have c: "length (getTemplatePlacements template W H N) = N"
    by (simp add: a length_getClassicPlacements)
  then have d: "0 < N \<longrightarrow> getTemplatePlacements template W H N \<noteq> []" by auto
  have p: "strip_placements (opts\<lparr>opt_template := Some template\<rparr>) n
           = strip_placements (opts\<lparr>opt_template := Some ''classic''\<rparr>) n" for n
    using assms
    by (simp add: strip_placements_def chosen_template_simps getTemplatePlacements_fallback[OF assms])
  have q: "strip_placements (opts\<lparr>opt_template := None\<rparr>) n
           = strip_placements (opts\<lparr>opt_template := Some ''classic''\<rparr>) n" for n
    by (simp add: strip_placements_def chosen_template_simps)
  have e: "stripCanvas env urls (opts\<lparr>opt_template := Some template\<rparr>)
           = stripCanvas env urls (opts\<lparr>opt_template := Some ''classic''\<rparr>)" for urls
    by (simp add: stripCanvas_def p)
  have f: "stripCanvas env urls (opts\<lparr>opt_template := None\<rparr>)
           = stripCanvas env urls (opts\<lparr>opt_template := Some ''classic''\<rparr>)" for urls
    by (simp add: stripCanvas_def q)
  have g: "generatePhotoboothStrip env photos (opts\<lparr>opt_template := Some template\<rparr>)
        = generatePhotoboothStrip env photos (opts\<lparr>opt_template := Some ''classic''\<rparr>)"
    by (simp add: generatePhotoboothStrip_def e cong: if_cong option.case_cong)
  have h: "generatePhotoboothStrip env photos (opts\<lparr>opt_template := None\<rparr>)
        = generatePhotoboothStrip env photos (opts\<lparr>opt_template := Some ''classic''\<rparr>)"
    by (simp add: generatePhotoboothStrip_def f cong: if_cong option.case_cong)
  from a b c d chosen_template_simps(1)[of opts] g h show ?thesis by (intro conjI)
qed

theorem unknown_template_is_classic_witness:
  "''retro'' \<noteq> ''grid'' \<and> ''retro'' \<noteq> ''polaroid''
   \<and> getTemplatePlacements ''retro'' 1080 1920 3 = getTemplatePlacements ''classic'' 1080 1920 3
   \<and> length (getTemplatePlacements ''retro'' 1080 1920 3) = 3
   \<and> generatePhotoboothStrip example_browser (Some example_photos)
         (example_options\<lparr>opt_template := Some ''retro''\<rparr>)
       = generatePhotoboothStrip example_browser (Some example_photos)
           (example_options\<lparr>opt_template := Some ''classic''\<rparr>)"
proof -
  have h1: "''retro'' \<noteq> ''grid''" and h2: "''retro'' \<noteq> ''polaroid''" by simp_all
  from h1 h2 unknown_template_is_classic[where template = "''retro''" and W = 1080
      and H = 1920 and N = 3 and opts = example_options and env = example_browser
      and photos = "Some example_photos", OF h1 h2]
  show ?thesis by blast
qed

section \<open>A photo that fails to decode\<close>
















section \<open>Sharing the strip\<close>

lemma downloads_simps:
  "downloads [] = False"
  "downloads (Download a # es) = True"
  "downloads (ShareCalled p # es) = downloads es"
  "downloads (ConsoleLog m # es) = downloads es"
  "downloads (ConsoleError m # es) = downloads es"
  by (simp_all add: downloads_def)

lemma logs_error_simps:
  "logs_error [] = False"
  "logs_error (ConsoleError m # es) = True"
  "logs_error (ShareCalled p # es) = logs_error es"
  "logs_error (ConsoleLog m # es) = logs_error es"
  "logs_error (Download a # es) = logs_error es"
  by (simp_all add: logs_error_def)

lemma download_effect_nonempty:
  "stripDataUrl \<noteq> [] \<Longrightarrow>
   download_effect stripDataUrl now =
     [Download \<lparr>link_download = ''new-year-photobooth-'' @ toString now @ ''.png'',
                link_href = stripDataUrl\<rparr>]"
  by (simp add: download_effect_def handleDownload_def)

lemma share_catch_effects:
  assumes "stripDataUrl \<noteq> []"
  shows "downloads (share_catch pf stripDataUrl name)"
    and "logs_error (share_catch pf stripDataUrl name) \<longleftrightarrow> name \<noteq> ''AbortError''"
  using assms
  by (simp_all add: share_catch_def download_effect_nonempty downloads_simps logs_error_simps)

lemma share_last_resort_effects:
  assumes "stripDataUrl \<noteq> []"
  shows "downloads (share_last_resort pf stripDataUrl)
           \<longleftrightarrow> share pf LastResortPayload \<noteq> ShareResolved"
    and "logs_error (share_last_resort pf stripDataUrl)
           \<longleftrightarrow> (\<exists>name. share pf LastResortPayload = ShareRejected name \<and> name \<noteq> ''AbortError'')"
  using assms
  by (simp_all add: share_last_resort_def share_catch_effects downloads_simps logs_error_simps
        split: share_outcome.splits)

lemma share_text_effects:
  assumes "stripDataUrl \<noteq> []"
  shows "downloads (share_text pf stripDataUrl)
           \<longleftrightarrow> \<not> text_shared pf \<and> share pf LastResortPayload \<noteq> ShareResolved"
    and "logs_error (share_text pf stripDataUrl)
           \<longleftrightarrow> \<not> text_shared pf
               \<and> (\<exists>name. share pf LastResortPayload = ShareRejected name \<and> name \<noteq> ''AbortError'')"
  using assms
  by (auto simp add: share_text_def text_shared_def share_last_resort_effects downloads_simps
        logs_error_simps split: option.splits bool.splits share_outcome.splits)

lemma share_file_effects:
  assumes "stripDataUrl \<noteq> []"
  shows "downloads (share_file pf stripDataUrl)
           \<longleftrightarrow> \<not> file_shared pf \<and> \<not> text_shared pf
               \<and> share pf LastResortPayload \<noteq> ShareResolved"
    and "logs_error (share_file pf stripDataUrl)
           \<longleftrightarrow> \<not> file_shared pf \<and> \<not> text_shared pf
               \<and> (\<exists>name. share pf LastResortPayload = ShareRejected name \<and> name \<noteq> ''AbortError'')"
  using assms
  by (auto simp add: share_file_def file_shared_def share_text_effects downloads_simps
        logs_error_simps split: option.splits bool.splits share_outcome.splits)

text \<open>
  C6 (amended). With a strip to share, \<^verbatim>\<open>handleShare\<close> invokes the download in exactly
  two situations: the platform does not offer sharing, or neither the file attempt nor
  the text and URL attempt completes a share and the last call of \<^verbatim>\<open>navigator.share\<close>
  fails, whatever the error, an \<open>AbortError\<close> of a user who cancels included. The error
  is logged in the second situation unless it is an \<open>AbortError\<close>: the cancellation is
  exempt from the log only, not from the download. A failing file attempt or text and URL
  attempt leads to the next attempt.
\<close>

theorem share_falls_back_to_download:
  assumes "stripDataUrl \<noteq> []"
  shows "(downloads (handleShare pf stripDataUrl) \<longleftrightarrow>
            \<not> share_available pf
          \<or> (\<not> file_shared pf \<and> \<not> text_shared pf
              \<and> share pf LastResortPayload \<noteq> ShareResolved))
    \<and> (logs_error (handleShare pf stripDataUrl) \<longleftrightarrow>
            share_available pf \<and> \<not> file_shared pf \<and> \<not> text_shared pf
          \<and> (\<exists>name. share pf LastResortPayload = ShareRejected name \<and> name \<noteq> ''AbortError''))"
proof (cases "share_available pf")
  case True
  then have "handleShare pf stripDataUrl = share_file pf stripDataUrl"
    using assms by (simp add: handleShare_def share_available_def)
  then show ?thesis using True by (simp add: share_file_effects[OF assms])
next
  case False
  then have "handleShare pf stripDataUrl = download_effect stripDataUrl (clock_ms pf)"
    using assms by (auto simp add: handleShare_def share_available_def)
  then show ?thesis using False assms
    by (simp add: download_effect_nonempty downloads_simps logs_error_simps)
qed

theorem share_falls_back_to_download_witness:
  "example_strip \<noteq> []
   \<and> downloads (handleShare (cancelling_platform\<lparr>shareSupported := False\<rparr>) example_strip)
   \<and> downloads (handleShare denying_platform example_strip)
   \<and> logs_error (handleShare denying_platform example_strip)
   \<and> downloads (handleShare cancelling_platform example_strip)
   \<and> \<not> logs_error (handleShare cancelling_platform example_strip)"
proof -
  have h: "example_strip \<noteq> []" by (simp add: example_strip_def)
  have a: "\<not> share_available (cancelling_platform\<lparr>shareSupported := False\<rparr>)"
    by (simp add: share_available_def)
  have b: "share_available denying_platform \<and> \<not> file_shared denying_platform
           \<and> \<not> text_shared denying_platform
           \<and> share denying_platform LastResortPayload = ShareRejected ''NotAllowedError''"
    by (simp add: share_available_def file_shared_def text_shared_def denying_platform_def
          cancelling_platform_def)
  have c: "share_available cancelling_platform \<and> \<not> file_shared cancelling_platform
           \<and> \<not> text_shared cancelling_platform
           \<and> share cancelling_platform LastResortPayload = ShareRejected ''AbortError''"
    by (simp add: share_available_def file_shared_def text_shared_def cancelling_platform_def)
  from share_falls_back_to_download[OF h, of "cancelling_platform\<lparr>shareSupported := False\<rparr>"] a
  have 1: "downloads (handleShare (cancelling_platform\<lparr>shareSupported := False\<rparr>) example_strip)"
    by blast
  from share_falls_back_to_download[OF h, of denying_platform] b
  have 2: "downloads (handleShare denying_platform example_strip)
           \<and> logs_error (handleShare denying_platform example_strip)"
    by simp
  from share_falls_back_to_download[OF h, of cancelling_platform] c
  have 3: "downloads (handleShare cancelling_platform example_strip)
           \<and> \<not> logs_error (handleShare cancelling_platform example_strip)"
    by simp
  from h 1 2 3 show ?thesis by blast
qed

text \<open>
  C6 as stated fails: a user who dismisses the share sheet gets the download all the same: on the platform
  without \<^verbatim>\<open>canShare\<close> after one cancelled call, on the platform with it after three.
  And when building the file fails but the text and URL share succeeds, no download
  follows the failure.
\<close>

theorem share_cancelled_counterexample:
  "handleShare cancelling_platform example_strip =
     [ShareCalled LastResortPayload,
      Download \<lparr>link_download = ''new-year-photobooth-1767225600000.png'',
                link_href = example_strip\<rparr>]
   \<and> downloads (handleShare cancelling_platform example_strip)
   \<and> downloads (handleShare cancelling_platform_with_canShare example_strip)
   \<and> handleShare file_failing_platform example_strip =
     [ConsoleLog ''File sharing not supported, trying text share'', ShareCalled TextUrlPayload]
   \<and> \<not> downloads (handleShare file_failing_platform example_strip)"
  by (simp add: handleShare_def share_file_def share_text_def share_last_resort_def
        share_catch_def download_effect_def handleDownload_def cancelling_platform_def
        cancelling_platform_with_canShare_def file_failing_platform_def example_strip_def
        downloads_simps toString_def digits.simps digit_def)

section \<open>Download file names\<close>

lemma less_ten:
  "(d::nat) < 10 \<Longrightarrow>
   d = 0 \<or> d = 1 \<or> d = 2 \<or> d = 3 \<or> d = 4 \<or> d = 5 \<or> d = 6 \<or> d = 7 \<or> d = 8 \<or> d = 9"
  by arith

lemma digit_code: "d < 10 \<Longrightarrow> of_char (digit d) = (48 + d :: nat)"
  by (drule less_ten) (elim disjE; simp add: digit_def)

lemma digit_inj:
  assumes "a < 10" "b < 10" "digit a = digit b"
  shows "a = b"
proof -
  have "(48 + a :: nat) = of_char (digit a)" by (rule digit_code[OF assms(1), symmetric])
  also have "\<dots> = of_char (digit b)" by (simp only: assms(3))
  also have "\<dots> = 48 + b" by (rule digit_code[OF assms(2)])
  finally show ?thesis by simp
qed

lemma digit_not_minus:
  assumes "d < 10"
  shows "digit d \<noteq> CHR ''-''"
proof
  assume "digit d = CHR ''-''"
  then have "of_char (digit d) = (of_char (CHR ''-'') :: nat)" by (rule arg_cong)
  then have "48 + d = (45::nat)" by (simp add: digit_code[OF assms])
  then show False by simp
qed

lemma digits_small: "n < 10 \<Longrightarrow> digits n = [digit n]"
  by (subst digits.simps) simp

lemma digits_large: "\<not> n < 10 \<Longrightarrow> digits n = digits (n div 10) @ [digit (n mod 10)]"
  by (subst digits.simps) simp

lemma digits_nonempty: "digits n \<noteq> []"
  by (cases "n < 10") (simp_all add: digits_small digits_large)

lemma digits_no_minus: "CHR ''-'' \<notin> set (digits n)"
proof (induction n rule: digits.induct)
  case (1 n)
  show ?case
  proof (cases "n < 10")
    case True
    then show ?thesis using digit_not_minus[OF True] by (simp add: digits_small)
  next
    case False
    have "n mod 10 < 10" by simp
    from digit_not_minus[OF this] 1[OF False] False show ?thesis
      by (simp add: digits_large)
  qed
qed

lemma digits_inj: "digits n = digits m \<Longrightarrow> n = m"
proof (induction n arbitrary: m rule: digits.induct)
  case (1 n)
  show ?case
  proof (cases "n < 10")
    case n: True
    show ?thesis
    proof (cases "m < 10")
      case True
      with n 1(2) have "digit n = digit m" by (simp add: digits_small)
      then show ?thesis by (rule digit_inj[OF n True])
    next
      case False
      with n 1(2) have "[digit n] = digits (m div 10) @ [digit (m mod 10)]"
        by (simp add: digits_small digits_large)
      then have "digits (m div 10) = []" by simp
      then show ?thesis using digits_nonempty by blast
    qed
  next
    case n: False
    show ?thesis
    proof (cases "m < 10")
      case True
      with n 1(2) have "digits (n div 10) @ [digit (n mod 10)] = [digit m]"
        by (simp add: digits_small digits_large)
      then have "digits (n div 10) = []" by simp
      then show ?thesis using digits_nonempty by blast
    next
      case False
      with n 1(2) have eq: "digits (n div 10) @ [digit (n mod 10)]
                            = digits (m div 10) @ [digit (m mod 10)]"
        by (simp add: digits_large)
      then have "digits (n div 10) = digits (m div 10)" by simp
      then have d: "n div 10 = m div 10" by (rule 1(1)[OF n])
      from eq have "digit (n mod 10) = digit (m mod 10)" by simp
      then have r: "n mod 10 = m mod 10" by (rule digit_inj[rotated 2]) simp_all
      have "n = 10 * (n div 10) + n mod 10" by simp
      also have "\<dots> = 10 * (m div 10) + m mod 10" by (simp only: d r)
      also have "\<dots> = m" by simp
      finally show ?thesis .
    qed
  qed
qed

lemma toString_inj: "toString a = toString b \<Longrightarrow> a = b"
proof -
  assume eq: "toString a = toString b"
  consider "a < 0" "b < 0" | "a < 0" "\<not> b < 0" | "\<not> a < 0" "b < 0" | "\<not> a < 0" "\<not> b < 0"
    by blast
  then show ?thesis
  proof cases
    case 1
    with eq have "digits (nat (- a)) = digits (nat (- b))" by (simp add: toString_def)
    then have "nat (- a) = nat (- b)" by (rule digits_inj)
    with 1 show ?thesis by simp
  next
    case 2
    with eq have "CHR ''-'' # digits (nat (- a)) = digits (nat b)" by (simp add: toString_def)
    then have "CHR ''-'' \<in> set (digits (nat b))" by (metis list.set_intros(1))
    then show ?thesis using digits_no_minus by blast
  next
    case 3
    with eq have "digits (nat a) = CHR ''-'' # digits (nat (- b))" by (simp add: toString_def)
    then have "CHR ''-'' \<in> set (digits (nat a))" by (metis list.set_intros(1))
    then show ?thesis using digits_no_minus by blast
  next
    case 4
    with eq have "digits (nat a) = digits (nat b)" by (simp add: toString_def)
    then have "nat a = nat b" by (rule digits_inj)
    with 4 show ?thesis by simp
  qed
qed

lemma saved_filenames_map:
  "stripDataUrl \<noteq> [] \<Longrightarrow>
   saved_filenames stripDataUrl clock
     = map (\<lambda>now. ''new-year-photobooth-'' @ toString now @ ''.png'') clock"
  by (induction clock) (simp_all add: saved_filenames_def handleDownload_def)

text \<open>
  C9 (amended). The file names under which successive invocations of \<^verbatim>\<open>handleDownload\<close>
  save a strip are pairwise distinct exactly when the clock readings of the invocations,
  in whole milliseconds, are pairwise distinct: the name is a function of the reading
  alone, and an injective one.
\<close>

theorem download_filenames_distinct:
  assumes "stripDataUrl \<noteq> []"
  shows "distinct (saved_filenames stripDataUrl clock) \<longleftrightarrow> distinct clock"
proof -
  have "inj_on (\<lambda>now. ''new-year-photobooth-'' @ toString now @ ''.png'') (set clock)"
    by (rule inj_onI) (simp add: toString_inj)
  then show ?thesis
    by (simp add: saved_filenames_map[OF assms] distinct_map)
qed

theorem download_filenames_distinct_witness:
  "example_strip \<noteq> []
   \<and> distinct (saved_filenames example_strip [1767225600000, 1767225600001])
   \<and> \<not> distinct (saved_filenames example_strip [1767225600000, 1767225600000])"
  using download_filenames_distinct[of example_strip "[1767225600000, 1767225600001]"]
    download_filenames_distinct[of example_strip "[1767225600000, 1767225600000]"]
  by (simp add: example_strip_def)

text \<open>C9 as stated fails: two invocations within one millisecond save under the same name.\<close>

theorem download_filenames_counterexample:
  "saved_filenames example_strip [1767225600000, 1767225600000]
     = [''new-year-photobooth-1767225600000.png'', ''new-year-photobooth-1767225600000.png'']
   \<and> \<not> distinct (saved_filenames example_strip [1767225600000, 1767225600000])"
  by (simp add: saved_filenames_def handleDownload_def example_strip_def toString_def
        digits.simps digit_def)

section \<open>Pixel filters\<close>












end
